theory Spec2Isabelle
  imports Main "HOL-Library.Word"
begin

section \<open>JavaScript values and the built-in operations the sources rely on\<close>

text \<open>
  The values that reach the formatter: arguments, return values and expectations of a
  test. A number is an integer from \<open>-2^53\<close> to \<open>2^53 - 1\<close>, held as the signed value
  of a 54-bit word: the integers a double holds exactly and prints with all their
  digits. Strings are lists of code units in the 8-bit range. An array or a plain
  object lists its elements or its own enumerable properties in order. \<open>Fn\<close>,
  \<open>Custom\<close> and \<open>Exotic\<close> carry the text that \<open>String(value)\<close> yields for them:
  \<open>Fn\<close> is a function, \<open>Custom\<close> an object of class \<open>Object\<close> with a \<open>toString\<close> of
  its own (a sinon matcher, for instance), \<open>Exotic\<close> a value of one of the listed
  non-JSON classes. A symbol has that text only under \<open>String(value)\<close>: its implicit
  conversion to a string, in a template or in \<open>join\<close>, throws. \<open>Cyclic\<close> stands inside
  an array or a plain object for a reference back to an enclosing array or plain
  object: the value contains itself. Objects with a \<open>toJSON\<close> method, and objects
  whose own \<open>toString\<close> throws, are outside the model.
\<close>

datatype exotic = Symbol | BigInt | RegExp | ErrorObj | MapObj | SetObj

datatype jsval =
    Undefined
  | Null
  | Bool bool
  | Num "54 word"
  | Str string
  | Arr "jsval list"
  | Obj "(string \<times> jsval) list"
  | Fn string
  | Custom string
  | Exotic exotic string
  | Cyclic

datatype exn = TypeError | Error string

abbreviation dquote :: char where "dquote \<equiv> CHR 0x22"
abbreviation squote :: char where "squote \<equiv> CHR 0x27"
abbreviation backslash :: char where "backslash \<equiv> CHR 0x5C"
abbreviation newline :: char where "newline \<equiv> CHR 0x0A"
abbreviation backtick :: char where "backtick \<equiv> CHR 0x60"

text \<open>
  Errors are values: \<open>Inl\<close> is a throw. \<open>exn_bind\<close> runs the next step on a result
  and passes a throw on; \<open>sequence\<close> takes the results of a list of steps in order,
  or the first throw.
\<close>

definition exn_bind :: "exn + 'a \<Rightarrow> ('a \<Rightarrow> exn + 'b) \<Rightarrow> exn + 'b" where
  "exn_bind r f = (case r of Inl e \<Rightarrow> Inl e | Inr x \<Rightarrow> f x)"

fun sequence :: "(exn + 'a) list \<Rightarrow> exn + 'a list" where
  "sequence [] = Inr []"
| "sequence (r # rs) =
     (case r of
        Inl e \<Rightarrow> Inl e
      | Inr x \<Rightarrow> (case sequence rs of Inl e \<Rightarrow> Inl e | Inr xs \<Rightarrow> Inr (x # xs)))"

text \<open>
  Decimal text of an integer: \<open>Number::toString\<close> on an integer of magnitude at most
  \<open>2^53\<close>, which a double holds exactly and prints with all its digits. The numbers
  among the values are in that range by their type; a call count and the count given
  to \<open>calledTimes\<close> are taken in it.
\<close>

definition digit_char :: "nat \<Rightarrow> char" where
  "digit_char d = char_of (48 + d)"

fun digits :: "nat \<Rightarrow> string" where
  "digits n = (if n < 10 then [digit_char n] else digits (n div 10) @ [digit_char (n mod 10)])"

declare digits.simps [simp del]

definition Number_toString :: "int \<Rightarrow> string" where
  "Number_toString i = (if i < 0 then CHR ''-'' # digits (nat (- i)) else digits (nat i))"

text \<open>\<open>Array.prototype.join\<close> on texts already converted.\<close>

fun intercalate :: "string \<Rightarrow> string list \<Rightarrow> string" where
  "intercalate sep [] = []"
| "intercalate sep [x] = x"
| "intercalate sep (x # y # ys) = x @ sep @ intercalate sep (y # ys)"

text \<open>
  \<open>ToString(value)\<close>, the implicit conversion of a template \<open>${value}\<close> and of
  \<open>join\<close>. A symbol throws. An array is joined with commas: \<open>undefined\<close> and \<open>null\<close>
  elements give the empty text, and so does an element that is the array being joined
  (the engines' cycle detection); every other element is converted in turn, so an
  array that holds a symbol throws. A bare \<open>Cyclic\<close> has no meaning outside a
  container.
\<close>

fun js_ToString :: "jsval \<Rightarrow> exn + string" where
  "js_ToString Undefined = Inr ''undefined''"
| "js_ToString Null = Inr ''null''"
| "js_ToString (Bool b) = Inr (if b then ''true'' else ''false'')"
| "js_ToString (Num n) = Inr (Number_toString (sint n))"
| "js_ToString (Str s) = Inr s"
| "js_ToString (Arr xs) =
     (case sequence
             (map (\<lambda>x. if x = Undefined \<or> x = Null \<or> x = Cyclic then Inr []
                       else js_ToString x) xs) of
        Inl e \<Rightarrow> Inl e
      | Inr ts \<Rightarrow> Inr (intercalate '','' ts))"
| "js_ToString (Obj kvs) = Inr ''[object Object]''"
| "js_ToString (Fn s) = Inr s"
| "js_ToString (Custom s) = Inr s"
| "js_ToString (Exotic k s) = (if k = Symbol then Inl TypeError else Inr s)"
| "js_ToString Cyclic = Inr ''[object Object]''"

text \<open>\<open>String(value)\<close>: the descriptive text for a symbol, \<open>ToString\<close> for the rest.\<close>

definition js_String :: "jsval \<Rightarrow> exn + string" where
  "js_String v = (case v of Exotic k s \<Rightarrow> (if k = Symbol then Inr s else js_ToString v)
                  | _ \<Rightarrow> js_ToString v)"

text \<open>\<open>items.join(sep)\<close> on an array of values.\<close>

definition join :: "string \<Rightarrow> jsval list \<Rightarrow> exn + string" where
  "join sep xs =
     (case sequence
             (map (\<lambda>x. if x = Undefined \<or> x = Null then Inr [] else js_ToString x) xs) of
        Inl e \<Rightarrow> Inl e
      | Inr ts \<Rightarrow> Inr (intercalate sep ts))"

text \<open>The \<open>typeof\<close> operator and \<open>Object.prototype.toString.call(value)\<close>.\<close>

fun typeof :: "jsval \<Rightarrow> string" where
  "typeof Undefined = ''undefined''"
| "typeof (Bool b) = ''boolean''"
| "typeof (Num n) = ''number''"
| "typeof (Str s) = ''string''"
| "typeof (Fn s) = ''function''"
| "typeof (Exotic Symbol s) = ''symbol''"
| "typeof (Exotic BigInt s) = ''bigint''"
| "typeof v = ''object''"

fun exotic_tag :: "exotic \<Rightarrow> string" where
  "exotic_tag Symbol = ''Symbol''"
| "exotic_tag BigInt = ''BigInt''"
| "exotic_tag RegExp = ''RegExp''"
| "exotic_tag ErrorObj = ''Error''"
| "exotic_tag MapObj = ''Map''"
| "exotic_tag SetObj = ''Set''"

fun class_tag :: "jsval \<Rightarrow> string" where
  "class_tag Undefined = ''Undefined''"
| "class_tag Null = ''Null''"
| "class_tag (Bool b) = ''Boolean''"
| "class_tag (Num n) = ''Number''"
| "class_tag (Str s) = ''String''"
| "class_tag (Arr xs) = ''Array''"
| "class_tag (Obj kvs) = ''Object''"
| "class_tag (Fn s) = ''Function''"
| "class_tag (Custom s) = ''Object''"
| "class_tag (Exotic k s) = exotic_tag k"
| "class_tag Cyclic = ''Object''"

definition Object_toString :: "jsval \<Rightarrow> string" where
  "Object_toString v = ''[object '' @ class_tag v @ '']''"

definition lower_char :: "char \<Rightarrow> char" where
  "lower_char c =
     (let n = (of_char c :: nat) in if 65 \<le> n \<and> n \<le> 90 then char_of (n + 32) else c)"

definition toLowerCase :: "string \<Rightarrow> string" where
  "toLowerCase s = map lower_char s"

text \<open>\<open>s.slice(8, -1)\<close>: from index 8 up to, not including, the last code unit.\<close>

definition slice_8_m1 :: "string \<Rightarrow> string" where
  "slice_8_m1 s = butlast (drop 8 s)"

text \<open>
  \<open>s.replace(/pat/g, rep)\<close> for a pattern that is a literal, non-empty text: the
  matches are taken from the left and do not overlap, and the replacement is not
  scanned again.
\<close>

function replace_all :: "string \<Rightarrow> string \<Rightarrow> string \<Rightarrow> string" where
  "replace_all pat rep [] = []"
| "replace_all pat rep (c # cs) =
     (if pat \<noteq> [] \<and> take (length pat) (c # cs) = pat
      then rep @ replace_all pat rep (drop (length pat) (c # cs))
      else c # replace_all pat rep cs)"
  by pat_completeness auto
termination
  by (relation "measure (\<lambda>(pat, rep, s). length s)") auto

text \<open>
  \<open>QuoteJSONString\<close>: the text between double quotes, with the double quote, the
  backslash and the control characters escaped.
\<close>

definition hex_char :: "nat \<Rightarrow> char" where
  "hex_char d = (if d < 10 then char_of (48 + d) else char_of (87 + d))"

definition quote_char :: "char \<Rightarrow> string" where
  "quote_char c =
     (let n = (of_char c :: nat) in
      if c = dquote then [backslash, dquote]
      else if c = backslash then [backslash, backslash]
      else if n = 8 then [backslash, CHR ''b'']
      else if n = 9 then [backslash, CHR ''t'']
      else if n = 10 then [backslash, CHR ''n'']
      else if n = 12 then [backslash, CHR ''f'']
      else if n = 13 then [backslash, CHR ''r'']
      else if n < 32 then [backslash, CHR ''u'', CHR ''0'', CHR ''0'', hex_char (n div 16), hex_char (n mod 16)]
      else [c])"

definition QuoteJSONString :: "string \<Rightarrow> string" where
  "QuoteJSONString s = dquote # concat (map quote_char s) @ [dquote]"

section \<open>The value formatter\<close>

text \<open>\<open>pluralize(word, count)\<close>.\<close>

definition pluralize :: "string \<Rightarrow> int \<Rightarrow> string" where
  "pluralize word count = (if count = 1 then word else word @ ''s'')"

text \<open>\<open>typeOf(value)\<close>: the class tag in lower case.\<close>

definition typeOf :: "jsval \<Rightarrow> string" where
  "typeOf v = slice_8_m1 (toLowerCase (Object_toString v))"

definition jsonTypes :: "string list" where
  "jsonTypes = [''string'', ''number'', ''boolean'', ''null'', ''array'', ''object'']"

text \<open>
  \<open>replacer(_, value)\<close>; the key is not used and is left out. \<open>String(value)\<close> is
  called only behind \<open>typeOf(value) === 'object'\<close> and \<open>typeof value === 'function'\<close>,
  and what it throws is thrown by the replacer.
\<close>

definition replacer :: "jsval \<Rightarrow> exn + jsval" where
  "replacer v =
     (if v = Undefined then Inr (Str ''<undefined>'')
      else exn_bind (if typeOf v = ''object''
                     then exn_bind (js_String v) (\<lambda>t. Inr (t \<noteq> ''[object Object]''))
                     else Inr False) (\<lambda>custom.
        if custom then exn_bind (js_String v) (\<lambda>t. Inr (Str t))
        else if typeof v = ''function'' then exn_bind (js_String v) (\<lambda>t. Inr (Str t))
        else if typeOf v \<notin> set jsonTypes then Inr (Str (Object_toString v))
        else Inr v))"

text \<open>
  \<open>JSON.stringify(value, replacer, space)\<close> with the replacer above. Each property
  value goes through the replacer, then is serialized by its kind; \<open>None\<close> is the
  result \<open>undefined\<close>. The replacer returns an array or a plain object unchanged, so a
  reference back to an enclosing one reaches the serializer while that one is on its
  stack, and the serializer throws.
\<close>

definition SerializeJSONArray :: "string \<Rightarrow> string \<Rightarrow> string option list \<Rightarrow> string" where
  "SerializeJSONArray gap stepback parts =
     (let indent = stepback @ gap;
          partial = map (\<lambda>p. case p of None \<Rightarrow> ''null'' | Some t \<Rightarrow> t) parts
      in if partial = [] then ''[]''
         else if gap = [] then ''['' @ intercalate '','' partial @ '']''
         else ''['' @ [newline] @ indent @ intercalate ('','' @ [newline] @ indent) partial
              @ [newline] @ stepback @ '']'')"

definition SerializeJSONObject :: "string \<Rightarrow> string \<Rightarrow> (string \<times> string option) list \<Rightarrow> string" where
  "SerializeJSONObject gap stepback parts =
     (let indent = stepback @ gap;
          partial = concat (map (\<lambda>(k, p). case p of None \<Rightarrow> []
                      | Some t \<Rightarrow> [QuoteJSONString k @ '':'' @ (if gap = [] then [] else '' '') @ t]) parts)
      in if partial = [] then ''{}''
         else if gap = [] then ''{'' @ intercalate '','' partial @ ''}''
         else ''{'' @ [newline] @ indent @ intercalate ('','' @ [newline] @ indent) partial
              @ [newline] @ stepback @ ''}'')"

function SerializeJSONProperty :: "string \<Rightarrow> string \<Rightarrow> jsval \<Rightarrow> exn + string option" where
  "SerializeJSONProperty gap indent v =
     (if v = Cyclic then Inl TypeError
      else case replacer v of
        Inl e \<Rightarrow> Inl e
      | Inr r \<Rightarrow>
         (case r of
            Null \<Rightarrow> Inr (Some ''null'')
          | Bool b \<Rightarrow> Inr (Some (if b then ''true'' else ''false''))
          | Str s \<Rightarrow> Inr (Some (QuoteJSONString s))
          | Num n \<Rightarrow> Inr (Some (Number_toString (sint n)))
          | Arr xs \<Rightarrow>
              (case sequence (map (SerializeJSONProperty gap (indent @ gap)) xs) of
                 Inl e \<Rightarrow> Inl e
               | Inr parts \<Rightarrow> Inr (Some (SerializeJSONArray gap indent parts)))
          | Obj kvs \<Rightarrow>
              (case sequence
                      (map (\<lambda>kv. SerializeJSONProperty gap (indent @ gap) (snd kv)) kvs) of
                 Inl e \<Rightarrow> Inl e
               | Inr parts \<Rightarrow>
                   Inr (Some (SerializeJSONObject gap indent (zip (map fst kvs) parts))))
          | Custom s \<Rightarrow> Inr (Some ''{}'')
          | Exotic k s \<Rightarrow>
              (if k = Symbol then Inr None else if k = BigInt then Inl TypeError
               else Inr (Some ''{}''))
          | Undefined \<Rightarrow> Inr None
          | Fn s \<Rightarrow> Inr None
          | Cyclic \<Rightarrow> Inl TypeError))"
  by pat_completeness auto
termination
proof (relation "measure (\<lambda>(gap, indent, v). size v)")
  show "wf (measure (\<lambda>(gap, indent, v). size v))" by simp
next
  fix gap indent :: string and v x :: jsval and xs
  fix r :: jsval
  assume r: "replacer v = Inr r" "r = Arr xs" and x: "x \<in> set xs"
  from r have "v = Arr xs"
    by (simp add: replacer_def exn_bind_def split: if_splits sum.splits)
  with x show "((gap, indent @ gap, x), (gap, indent, v)) \<in> measure (\<lambda>(gap, indent, v). size v)"
    by (auto simp: less_Suc_eq_le size_list_estimation')
next
  fix gap indent :: string and v :: jsval and kvs and kv :: "string \<times> jsval"
  fix r :: jsval
  assume r: "replacer v = Inr r" "r = Obj kvs" and kv: "kv \<in> set kvs"
  from r have v: "v = Obj kvs"
    by (simp add: replacer_def exn_bind_def split: if_splits sum.splits)
  from kv have "size (snd kv) < Suc (size_list (size_prod (\<lambda>_. 0) size) kvs)"
    by (induction kvs) (auto simp: less_Suc_eq_le)
  with v show "((gap, indent @ gap, snd kv), (gap, indent, v)) \<in> measure (\<lambda>(gap, indent, v). size v)"
    by simp
qed

declare SerializeJSONProperty.simps [simp del]

definition JSON_stringify :: "jsval \<Rightarrow> nat \<Rightarrow> exn + string option" where
  "JSON_stringify v space = SerializeJSONProperty (replicate (min space 10) CHR '' '') [] v"

text \<open>
  \<open>format(value, isIndented)\<close>. \<open>format_try\<close> is the body of the \<open>try\<close> block: it
  throws when the encoding throws, and when the encoding is \<open>undefined\<close> (the call of
  \<open>replace\<close> on it). \<open>format\<close> adds the \<open>catch\<close>, which returns the value as it came.
\<close>

definition format_try :: "jsval \<Rightarrow> bool \<Rightarrow> exn + string" where
  "format_try v isIndented =
     (let space = (if isIndented then 2 else 0) in
      case JSON_stringify v space of
        Inl e \<Rightarrow> Inl e
      | Inr None \<Rightarrow> Inl TypeError
      | Inr (Some json) \<Rightarrow>
          (let result =
                 replace_all [dquote] [squote]
                   (replace_all [backslash, dquote] [squote]
                     (replace_all (dquote # ''<undefined>'' @ [dquote]) ''undefined'' json))
           in Inr (if newline \<in> set result
                   then [backtick, newline] @ result @ [newline, backtick]
                   else [backtick] @ result @ [backtick])))"

definition format :: "jsval \<Rightarrow> bool \<Rightarrow> jsval" where
  "format v isIndented = (case format_try v isIndented of Inr t \<Rightarrow> Str t | Inl e \<Rightarrow> v)"

definition formatItems :: "jsval list \<Rightarrow> bool \<Rightarrow> jsval list" where
  "formatItems items isIndented = map (\<lambda>item. format item isIndented) items"

section \<open>The spy, as the assertions read it\<close>

text \<open>
  The spy belongs to sinon. The assertions read its text form, its recorded calls and
  its matching predicates; the predicates are computed here from the recorded calls, as
  sinon does, with sinon's two comparisons taken as fields of the spy: \<open>deepEqual\<close>
  (expectation against actual value, matchers included) and \<open>sameException\<close> (the
  thrown value against the expected one). \<open>exception\<close> is \<open>Undefined\<close> for a call
  that returned.
\<close>

record call =
  call_args :: "jsval list"
  returnValue :: jsval
  exception :: jsval

record sinon_spy =
  spy_name :: string
  calls :: "call list"
  deepEqual :: "jsval \<Rightarrow> jsval \<Rightarrow> bool"
  sameException :: "jsval \<Rightarrow> jsval \<Rightarrow> bool"

fun truthy :: "jsval \<Rightarrow> bool" where
  "truthy Undefined = False"
| "truthy Null = False"
| "truthy (Bool b) = b"
| "truthy (Num n) = (n \<noteq> 0)"
| "truthy (Str s) = (s \<noteq> [])"
| "truthy (Exotic BigInt s) = (s \<noteq> ''0'')"
| "truthy v = True"

definition callCount :: "sinon_spy \<Rightarrow> int" where
  "callCount s = int (length (calls s))"

definition spy_args :: "sinon_spy \<Rightarrow> jsval list" where
  "spy_args s = map (\<lambda>c. Arr (call_args c)) (calls s)"

definition returnValues :: "sinon_spy \<Rightarrow> jsval list" where
  "returnValues s = map returnValue (calls s)"

text \<open>\<open>spy.getCall(index)\<close>: a negative index counts from the last call; \<open>None\<close> is \<open>null\<close>.\<close>

definition getCall :: "sinon_spy \<Rightarrow> int \<Rightarrow> call option" where
  "getCall s index =
     (let i = (if index < 0 then index + callCount s else index)
      in if i < 0 \<or> callCount s \<le> i then None else Some (calls s ! nat i))"

definition call_calledWith :: "(jsval \<Rightarrow> jsval \<Rightarrow> bool) \<Rightarrow> call \<Rightarrow> jsval list \<Rightarrow> bool" where
  "call_calledWith eq c expected =
     (length expected \<le> length (call_args c)
      \<and> list_all (\<lambda>(e, a). eq e a) (zip expected (call_args c)))"

definition call_calledWithExactly :: "(jsval \<Rightarrow> jsval \<Rightarrow> bool) \<Rightarrow> call \<Rightarrow> jsval list \<Rightarrow> bool" where
  "call_calledWithExactly eq c expected =
     (length expected = length (call_args c) \<and> call_calledWith eq c expected)"

definition call_returned :: "(jsval \<Rightarrow> jsval \<Rightarrow> bool) \<Rightarrow> call \<Rightarrow> jsval \<Rightarrow> bool" where
  "call_returned eq c v = eq v (returnValue c)"

definition call_threw :: "(jsval \<Rightarrow> jsval \<Rightarrow> bool) \<Rightarrow> call \<Rightarrow> jsval \<Rightarrow> bool" where
  "call_threw same c err =
     (if err = Undefined \<or> \<not> truthy (exception c) then truthy (exception c)
      else same (exception c) err)"

text \<open>The spy's own predicates hold when some recorded call satisfies them.\<close>

definition spy_calledWith :: "sinon_spy \<Rightarrow> jsval list \<Rightarrow> bool" where
  "spy_calledWith s expected = list_ex (\<lambda>c. call_calledWith (deepEqual s) c expected) (calls s)"

definition spy_calledWithExactly :: "sinon_spy \<Rightarrow> jsval list \<Rightarrow> bool" where
  "spy_calledWithExactly s expected =
     list_ex (\<lambda>c. call_calledWithExactly (deepEqual s) c expected) (calls s)"

definition spy_returned :: "sinon_spy \<Rightarrow> jsval \<Rightarrow> bool" where
  "spy_returned s v = list_ex (\<lambda>c. call_returned (deepEqual s) c v) (calls s)"

definition spy_threw :: "sinon_spy \<Rightarrow> jsval \<Rightarrow> bool" where
  "spy_threw s err = list_ex (\<lambda>c. call_threw (sameException s) c err) (calls s)"

section \<open>The assertion set\<close>

text \<open>
  An instance binds a spy and a test context. The test context of the checks is the
  list of the results pushed to it so far, oldest first. A check returns the instance
  it was called on, with the pushed result added to its test context, or the error it
  raised.
\<close>

record qunit_result =
  result :: bool
  expected :: string
  actual :: string
  message :: string

record ('s, 'c) SinonAssertions =
  spy :: 's
  testContext :: 'c

type_synonym assertions = "(sinon_spy, qunit_result list) SinonAssertions"

text \<open>
  The optional message of a check: \<open>None\<close> when the caller gives none. \<open>msg_truthy\<close> is
  its truth value in a condition, \<open>msg_text\<close> its text in a template.
\<close>

definition msg_truthy :: "string option \<Rightarrow> bool" where
  "msg_truthy msg = (case msg of None \<Rightarrow> False | Some m \<Rightarrow> m \<noteq> [])"

definition msg_text :: "string option \<Rightarrow> string" where
  "msg_text msg = (case msg of None \<Rightarrow> ''undefined'' | Some m \<Rightarrow> m)"

text \<open>\<open>pushResult({ message: msg, result, expected, actual, error })\<close>.\<close>

definition pushResult ::
  "string option \<Rightarrow> bool \<Rightarrow> string \<Rightarrow> string \<Rightarrow> string \<Rightarrow> assertions \<Rightarrow> assertions" where
  "pushResult msg res exp act err self =
     (let message = (if res then (if msg_truthy msg then msg_text msg else exp)
                     else (if msg_truthy msg then msg_text msg @ [newline] else []) @ err)
      in self\<lparr>testContext := testContext self
                @ [\<lparr>result = res, expected = exp, actual = act, message = message\<rparr>]\<rparr>)"

text \<open>
  A value in a template, \<open>${format(x)}\<close>: the token when \<open>format\<close> gives one, and the
  implicit conversion of the value itself when \<open>format\<close> gave it back, which may throw.
  The fields of the object handed to \<open>pushResult\<close> are evaluated in the order written,
  before the call; a throw in one of them leaves nothing pushed.
\<close>

definition fmt :: "jsval \<Rightarrow> exn + string" where
  "fmt v = js_ToString (format v False)"

definition called :: "string option \<Rightarrow> assertions \<Rightarrow> exn + assertions" where
  "called msg self =
     (let s = spy self in
      Inr (pushResult msg (callCount s > 0)
        (spy_name s @ '' was called at least once'')
        (spy_name s @ '' was not called'')
        (''Expected '' @ spy_name s @ '' to be called at least once, but it was not called.'')
        self))"

definition calledTimes :: "int \<Rightarrow> string option \<Rightarrow> assertions \<Rightarrow> exn + assertions" where
  "calledTimes count msg self =
     (let s = spy self;
          expectedTimes = Number_toString count @ '' '' @ pluralize ''time'' count;
          actualTimes = Number_toString (callCount s) @ '' '' @ pluralize ''time'' (callCount s)
      in Inr (pushResult msg (callCount s = count)
        (spy_name s @ '' was called '' @ expectedTimes)
        (spy_name s @ '' was called '' @ actualTimes)
        (''Expected '' @ spy_name s @ '' to be called '' @ expectedTimes
           @ '', but it was called '' @ actualTimes @ ''.'')
        self))"

definition calledOnce :: "string option \<Rightarrow> assertions \<Rightarrow> exn + assertions" where
  "calledOnce msg self = calledTimes 1 msg self"

definition calledTwice :: "string option \<Rightarrow> assertions \<Rightarrow> exn + assertions" where
  "calledTwice msg self = calledTimes 2 msg self"

definition notCalled :: "string option \<Rightarrow> assertions \<Rightarrow> exn + assertions" where
  "notCalled msg self = calledTimes 0 msg self"

definition calledWith :: "jsval list \<Rightarrow> string option \<Rightarrow> assertions \<Rightarrow> exn + assertions" where
  "calledWith args msg self =
     (let s = spy self in
      exn_bind (if callCount s \<noteq> 0
                then exn_bind (join [newline] (formatItems (spy_args s) False))
                       (\<lambda>listing. Inr (''called with: '' @ listing))
                else Inr ''not called at all'') (\<lambda>actualState.
      exn_bind (fmt (Arr args)) (\<lambda>expectedArgs.
      exn_bind (fmt (Arr args)) (\<lambda>errorArgs.
      Inr (pushResult msg (spy_calledWith s args)
        (spy_name s @ '' was called with: '' @ expectedArgs)
        (spy_name s @ '' was '' @ actualState)
        (''Expected '' @ spy_name s @ '' to be called with: '' @ errorArgs
           @ '', but it was '' @ actualState @ ''.'')
        self)))))"

definition calledWithExactly :: "jsval list \<Rightarrow> string option \<Rightarrow> assertions \<Rightarrow> exn + assertions" where
  "calledWithExactly args msg self =
     (let s = spy self in
      exn_bind (if callCount s \<noteq> 0
                then exn_bind (join [newline] (formatItems (spy_args s) False))
                       (\<lambda>listing. Inr (''called with: '' @ listing))
                else Inr ''not called at all'') (\<lambda>actualState.
      exn_bind (fmt (Arr args)) (\<lambda>expectedArgs.
      exn_bind (fmt (Arr args)) (\<lambda>errorArgs.
      Inr (pushResult msg (spy_calledWithExactly s args)
        (spy_name s @ '' was called with: '' @ expectedArgs)
        (spy_name s @ '' was '' @ actualState)
        (''Expected '' @ spy_name s @ '' to be called with exactly: '' @ errorArgs
           @ '', but it was '' @ actualState @ ''.'')
        self)))))"

definition notCalledWith :: "jsval list \<Rightarrow> string option \<Rightarrow> assertions \<Rightarrow> exn + assertions" where
  "notCalledWith args msg self =
     (let s = spy self in
      exn_bind (fmt (Arr args)) (\<lambda>expectedArgs.
      exn_bind (fmt (Arr args)) (\<lambda>actualArgs.
      exn_bind (fmt (Arr args)) (\<lambda>errorArgs.
      Inr (pushResult msg (\<not> spy_calledWith s args)
        (spy_name s @ '' was never called with: '' @ expectedArgs)
        (spy_name s @ '' was called with: '' @ actualArgs)
        (''Expected '' @ spy_name s @ '' to never be called with: '' @ errorArgs
           @ '', but it was.'')
        self)))))"

definition notCalledWithExactly :: "jsval list \<Rightarrow> string option \<Rightarrow> assertions \<Rightarrow> exn + assertions" where
  "notCalledWithExactly args msg self =
     (let s = spy self in
      exn_bind (fmt (Arr args)) (\<lambda>expectedArgs.
      exn_bind (fmt (Arr args)) (\<lambda>actualArgs.
      exn_bind (fmt (Arr args)) (\<lambda>errorArgs.
      Inr (pushResult msg (\<not> spy_calledWithExactly s args)
        (spy_name s @ '' was never called with: '' @ expectedArgs)
        (spy_name s @ '' was called with: '' @ actualArgs)
        (''Expected '' @ spy_name s @ '' to never be called with exactly: '' @ errorArgs
           @ '', but it was.'')
        self)))))"

definition returnedWith :: "jsval \<Rightarrow> string option \<Rightarrow> assertions \<Rightarrow> exn + assertions" where
  "returnedWith v msg self =
     (let s = spy self in
      exn_bind (fmt v) (\<lambda>expectedValue.
      exn_bind (join [newline] (formatItems (returnValues s) False)) (\<lambda>listing.
      exn_bind (fmt v) (\<lambda>errorValue.
      Inr (pushResult msg (spy_returned s v)
        (spy_name s @ '' returned '' @ expectedValue)
        (spy_name s @ '' returned '' @ listing)
        (''Expected '' @ spy_name s @ '' to return '' @ errorValue
           @ '' at least once, but it did not.'')
        self)))))"

definition didNotReturnWith :: "jsval \<Rightarrow> string option \<Rightarrow> assertions \<Rightarrow> exn + assertions" where
  "didNotReturnWith v msg self =
     (let s = spy self in
      exn_bind (fmt v) (\<lambda>expectedValue.
      exn_bind (fmt v) (\<lambda>actualValue.
      exn_bind (fmt v) (\<lambda>errorValue.
      Inr (pushResult msg (\<not> spy_returned s v)
        (spy_name s @ '' did not return '' @ expectedValue)
        (spy_name s @ '' returned '' @ actualValue)
        (''Expected '' @ spy_name s @ '' to never return '' @ errorValue @ '', but it did.'')
        self)))))"

definition threw :: "string option \<Rightarrow> assertions \<Rightarrow> exn + assertions" where
  "threw msg self =
     (let s = spy self in
      Inr (pushResult msg (spy_threw s Undefined)
        (spy_name s @ '' threw'')
        (spy_name s @ '' did not throw'')
        (''Expected '' @ spy_name s @ '' to throw at least once, but it did not.'')
        self))"

definition threwWith :: "jsval \<Rightarrow> string option \<Rightarrow> assertions \<Rightarrow> exn + assertions" where
  "threwWith ex msg self =
     (let s = spy self in
      exn_bind (fmt ex) (\<lambda>expectedValue.
      exn_bind (fmt ex) (\<lambda>actualValue.
      exn_bind (fmt ex) (\<lambda>errorValue.
      Inr (pushResult msg (spy_threw s ex)
        (spy_name s @ '' threw with '' @ expectedValue)
        (spy_name s @ '' did not throw with '' @ actualValue)
        (''Expected '' @ spy_name s @ '' to throw with '' @ errorValue @ '', but it did not.'')
        self)))))"

text \<open>
  The last-call checks read \<open>spy.getCall(-1)\<close>, which is \<open>null\<close> for a spy never
  called. Reading a property of \<open>null\<close> throws; \<open>member\<close> is that read, and the checks
  reach it only where the source does: behind \<open>lastCall ? ... : ...\<close> and
  \<open>!!lastCall && ...\<close>.
\<close>

definition member :: "call option \<Rightarrow> exn + call" where
  "member lastCall = (case lastCall of None \<Rightarrow> Inl TypeError | Some c \<Rightarrow> Inr c)"

definition lastCalledWith :: "jsval list \<Rightarrow> string option \<Rightarrow> assertions \<Rightarrow> exn + assertions" where
  "lastCalledWith args msg self =
     (let s = spy self; lastCall = getCall s (- 1) in
      exn_bind (if lastCall \<noteq> None
                then exn_bind (member lastCall) (\<lambda>c.
                     exn_bind (fmt (Arr (call_args c))) (\<lambda>lastArgs.
                     Inr (''last called with: '' @ lastArgs)))
                else Inr ''not called at all'') (\<lambda>actualState.
      exn_bind (if lastCall \<noteq> None
                then exn_bind (member lastCall) (\<lambda>c. Inr (call_calledWith (deepEqual s) c args))
                else Inr False) (\<lambda>res.
      exn_bind (fmt (Arr args)) (\<lambda>expectedArgs.
      exn_bind (fmt (Arr args)) (\<lambda>errorArgs.
      Inr (pushResult msg res
        (spy_name s @ '' was last called with: '' @ expectedArgs)
        (spy_name s @ '' was '' @ actualState)
        (''Expected '' @ spy_name s @ '' to be last called with: '' @ errorArgs
           @ '', but it was '' @ actualState @ ''.'')
        self))))))"

definition lastCalledWithExactly :: "jsval list \<Rightarrow> string option \<Rightarrow> assertions \<Rightarrow> exn + assertions" where
  "lastCalledWithExactly args msg self =
     (let s = spy self; lastCall = getCall s (- 1) in
      exn_bind (if lastCall \<noteq> None
                then exn_bind (member lastCall) (\<lambda>c.
                     exn_bind (fmt (Arr (call_args c))) (\<lambda>lastArgs.
                     Inr (''last called with: '' @ lastArgs)))
                else Inr ''not called at all'') (\<lambda>actualState.
      exn_bind (if lastCall \<noteq> None
                then exn_bind (member lastCall)
                       (\<lambda>c. Inr (call_calledWithExactly (deepEqual s) c args))
                else Inr False) (\<lambda>res.
      exn_bind (fmt (Arr args)) (\<lambda>expectedArgs.
      exn_bind (fmt (Arr args)) (\<lambda>errorArgs.
      Inr (pushResult msg res
        (spy_name s @ '' was last called with: '' @ expectedArgs)
        (spy_name s @ '' was '' @ actualState)
        (''Expected '' @ spy_name s @ '' to be last called with exactly: '' @ errorArgs
           @ '', but it was '' @ actualState @ ''.'')
        self))))))"

definition lastReturnedWith :: "jsval \<Rightarrow> string option \<Rightarrow> assertions \<Rightarrow> exn + assertions" where
  "lastReturnedWith v msg self =
     (let s = spy self; lastCall = getCall s (- 1) in
      exn_bind (if lastCall \<noteq> None
                then exn_bind (member lastCall) (\<lambda>c.
                     exn_bind (fmt (returnValue c)) (\<lambda>lastValue.
                     Inr (spy_name s @ '' last call returned '' @ lastValue)))
                else Inr (spy_name s @ '' was not called at all'')) (\<lambda>actualState.
      exn_bind (if lastCall \<noteq> None
                then exn_bind (member lastCall) (\<lambda>c. Inr (call_returned (deepEqual s) c v))
                else Inr False) (\<lambda>res.
      exn_bind (fmt v) (\<lambda>expectedValue.
      exn_bind (fmt v) (\<lambda>errorValue.
      Inr (pushResult msg res
        (spy_name s @ '' last call returned '' @ expectedValue)
        actualState
        (''Expected '' @ spy_name s @ '' last call to return '' @ errorValue
           @ '', but '' @ actualState @ ''.'')
        self))))))"

definition lastNotCalledWith :: "jsval list \<Rightarrow> string option \<Rightarrow> assertions \<Rightarrow> exn + assertions" where
  "lastNotCalledWith args msg self =
     (let s = spy self; lastCall = getCall s (- 1) in
      exn_bind (if lastCall \<noteq> None
                then exn_bind (member lastCall) (\<lambda>c.
                     exn_bind (fmt (Arr (call_args c))) (\<lambda>lastArgs.
                     Inr (''last called with: '' @ lastArgs)))
                else Inr ''not called at all'') (\<lambda>actualState.
      exn_bind (if lastCall \<noteq> None
                then exn_bind (member lastCall)
                       (\<lambda>c. Inr (\<not> call_calledWith (deepEqual s) c args))
                else Inr False) (\<lambda>res.
      exn_bind (fmt (Arr args)) (\<lambda>expectedArgs.
      exn_bind (fmt (Arr args)) (\<lambda>errorArgs.
      Inr (pushResult msg res
        (spy_name s @ '' was not last called with: '' @ expectedArgs)
        (spy_name s @ '' was '' @ actualState)
        (''Expected '' @ spy_name s @ '' to not be last called with: '' @ errorArgs
           @ '', but it was '' @ actualState @ ''.'')
        self))))))"

definition lastNotCalledWithExactly :: "jsval list \<Rightarrow> string option \<Rightarrow> assertions \<Rightarrow> exn + assertions" where
  "lastNotCalledWithExactly args msg self =
     (let s = spy self; lastCall = getCall s (- 1) in
      exn_bind (if lastCall \<noteq> None
                then exn_bind (member lastCall) (\<lambda>c.
                     exn_bind (fmt (Arr (call_args c))) (\<lambda>lastArgs.
                     Inr (''last called with: '' @ lastArgs)))
                else Inr ''not called at all'') (\<lambda>actualState.
      exn_bind (if lastCall \<noteq> None
                then exn_bind (member lastCall)
                       (\<lambda>c. Inr (\<not> call_calledWithExactly (deepEqual s) c args))
                else Inr False) (\<lambda>res.
      exn_bind (fmt (Arr args)) (\<lambda>expectedArgs.
      exn_bind (fmt (Arr args)) (\<lambda>errorArgs.
      Inr (pushResult msg res
        (spy_name s @ '' was not last called with: '' @ expectedArgs)
        (spy_name s @ '' was '' @ actualState)
        (''Expected '' @ spy_name s @ '' to not be last called with exactly: '' @ errorArgs
           @ '', but it was.'')
        self))))))"

definition lastDidNotReturnWith :: "jsval \<Rightarrow> string option \<Rightarrow> assertions \<Rightarrow> exn + assertions" where
  "lastDidNotReturnWith v msg self =
     (let s = spy self; lastCall = getCall s (- 1) in
      exn_bind (if lastCall \<noteq> None
                then exn_bind (member lastCall) (\<lambda>c.
                     exn_bind (fmt (returnValue c)) (\<lambda>lastValue.
                     Inr (spy_name s @ '' last call returned '' @ lastValue)))
                else Inr (spy_name s @ '' was not called at all'')) (\<lambda>actualState.
      exn_bind (if lastCall \<noteq> None
                then exn_bind (member lastCall)
                       (\<lambda>c. Inr (\<not> call_returned (deepEqual s) c v))
                else Inr False) (\<lambda>res.
      exn_bind (fmt v) (\<lambda>expectedValue.
      exn_bind (fmt v) (\<lambda>errorValue.
      Inr (pushResult msg res
        (spy_name s @ '' last call did not return '' @ expectedValue)
        actualState
        (''Expected '' @ spy_name s @ '' last call not to return '' @ errorValue
           @ '', but it did.'')
        self))))))"

text \<open>A chain \<open>assert.spy(fn).a(...).b(...)\<close>: each check runs on what the one before returned.\<close>

datatype check =
    Called "string option"
  | CalledTimes int "string option"
  | CalledOnce "string option"
  | CalledTwice "string option"
  | NotCalled "string option"
  | CalledWith "jsval list" "string option"
  | CalledWithExactly "jsval list" "string option"
  | NotCalledWith "jsval list" "string option"
  | NotCalledWithExactly "jsval list" "string option"
  | ReturnedWith jsval "string option"
  | DidNotReturnWith jsval "string option"
  | Threw "string option"
  | ThrewWith jsval "string option"
  | LastCalledWith "jsval list" "string option"
  | LastCalledWithExactly "jsval list" "string option"
  | LastReturnedWith jsval "string option"
  | LastNotCalledWith "jsval list" "string option"
  | LastNotCalledWithExactly "jsval list" "string option"
  | LastDidNotReturnWith jsval "string option"

fun run_check :: "check \<Rightarrow> assertions \<Rightarrow> exn + assertions" where
  "run_check (Called m) = called m"
| "run_check (CalledTimes n m) = calledTimes n m"
| "run_check (CalledOnce m) = calledOnce m"
| "run_check (CalledTwice m) = calledTwice m"
| "run_check (NotCalled m) = notCalled m"
| "run_check (CalledWith a m) = calledWith a m"
| "run_check (CalledWithExactly a m) = calledWithExactly a m"
| "run_check (NotCalledWith a m) = notCalledWith a m"
| "run_check (NotCalledWithExactly a m) = notCalledWithExactly a m"
| "run_check (ReturnedWith v m) = returnedWith v m"
| "run_check (DidNotReturnWith v m) = didNotReturnWith v m"
| "run_check (Threw m) = threw m"
| "run_check (ThrewWith v m) = threwWith v m"
| "run_check (LastCalledWith a m) = lastCalledWith a m"
| "run_check (LastCalledWithExactly a m) = lastCalledWithExactly a m"
| "run_check (LastReturnedWith v m) = lastReturnedWith v m"
| "run_check (LastNotCalledWith a m) = lastNotCalledWith a m"
| "run_check (LastNotCalledWithExactly a m) = lastNotCalledWithExactly a m"
| "run_check (LastDidNotReturnWith v m) = lastDidNotReturnWith v m"

fun run_chain :: "check list \<Rightarrow> assertions \<Rightarrow> exn + assertions" where
  "run_chain [] self = Inr self"
| "run_chain (c # cs) self = exn_bind (run_check c self) (run_chain cs)"

section \<open>The factory \<open>assert.spy\<close>\<close>










section \<open>What the statements observe\<close>

text \<open>
  \<open>reported self r\<close> is the result a check added to the test context of \<open>self\<close>, when
  the check returned \<open>r\<close> without an error and added exactly one. A check passes when
  that result is a success and fails when it is a failure; a check that raises does
  neither.
\<close>

definition reported :: "assertions \<Rightarrow> exn + assertions \<Rightarrow> qunit_result option" where
  "reported self r =
     (case r of
        Inl e \<Rightarrow> None
      | Inr a \<Rightarrow>
          (if length (testContext a) = Suc (length (testContext self))
              \<and> take (length (testContext self)) (testContext a) = testContext self
           then Some (last (testContext a)) else None))"

definition passes :: "assertions \<Rightarrow> exn + assertions \<Rightarrow> bool" where
  "passes self r = (case reported self r of None \<Rightarrow> False | Some q \<Rightarrow> result q)"

definition fails :: "assertions \<Rightarrow> exn + assertions \<Rightarrow> bool" where
  "fails self r = (case reported self r of None \<Rightarrow> False | Some q \<Rightarrow> \<not> result q)"

definition raises :: "exn + 'a \<Rightarrow> bool" where
  "raises r = (case r of Inl e \<Rightarrow> True | Inr x \<Rightarrow> False)"

text \<open>\<open>js_includes t part\<close>: the text \<open>t\<close> holds \<open>part\<close> as a run of consecutive code units.\<close>

fun js_includes :: "string \<Rightarrow> string \<Rightarrow> bool" where
  "js_includes [] part = (part = [])"
| "js_includes (c # cs) part = (take (length part) (c # cs) = part \<or> js_includes cs part)"

text \<open>
  The message as the specification words it, where a message is present when the
  caller gave one.
\<close>

definition report_message_spec :: "string option \<Rightarrow> bool \<Rightarrow> string \<Rightarrow> string \<Rightarrow> string" where
  "report_message_spec msg res exp err =
     (if res then (case msg of Some m \<Rightarrow> m | None \<Rightarrow> exp)
      else (case msg of Some m \<Rightarrow> m @ [newline] | None \<Rightarrow> []) @ err)"




text \<open>
  Spies for the examples: one never called, one called as \<open>f(1)\<close> and then \<open>f(2)\<close>,
  returning \<open>10\<close> and \<open>20\<close>, and one called once as \<open>f('a', 'b')\<close>, returning \<open>'ok'\<close>.
  Their comparisons are equality of values. \<open>fresh s\<close> is a new assertion set on \<open>s\<close>
  with nothing pushed yet.
\<close>

definition never_called :: sinon_spy where
  "never_called = \<lparr>spy_name = ''spy'', calls = [], deepEqual = (=), sameException = (=)\<rparr>"

definition called_twice :: sinon_spy where
  "called_twice =
     \<lparr>spy_name = ''spy'',
      calls = [\<lparr>call_args = [Num 1], returnValue = Num 10, exception = Undefined\<rparr>,
               \<lparr>call_args = [Num 2], returnValue = Num 20, exception = Undefined\<rparr>],
      deepEqual = (=), sameException = (=)\<rparr>"

definition called_ab :: sinon_spy where
  "called_ab =
     \<lparr>spy_name = ''f'',
      calls = [\<lparr>call_args = [Str ''a'', Str ''b''], returnValue = Str ''ok'',
                exception = Undefined\<rparr>],
      deepEqual = (=), sameException = (=)\<rparr>"

definition fresh :: "sinon_spy \<Rightarrow> assertions" where
  "fresh s = \<lparr>spy = s, testContext = []\<rparr>"

text \<open>
  The array of \<open>a = [Symbol('s')]; a.push(a)\<close>: it holds a symbol and itself.
\<close>

definition symbol_in_cycle :: jsval where
  "symbol_in_cycle = Arr [Exotic Symbol ''Symbol(s)'', Cyclic]"

section \<open>Properties of the formatter\<close>

lemma typeOf_simps:
  "typeOf Undefined = ''undefined''"
  "typeOf Null = ''null''"
  "typeOf (Bool b) = ''boolean''"
  "typeOf (Num n) = ''number''"
  "typeOf (Str s) = ''string''"
  "typeOf (Arr xs) = ''array''"
  "typeOf (Obj kvs) = ''object''"
  "typeOf (Fn s) = ''function''"
  "typeOf (Custom s) = ''object''"
  "typeOf Cyclic = ''object''"
  by code_simp+

lemma exn_bind_Inr: "exn_bind (Inr x) f = f x"
  by (simp add: exn_bind_def)

lemma replacer_Str: "replacer (Str s) = Inr (Str s)"
  by (simp add: replacer_def typeOf_simps jsonTypes_def exn_bind_Inr)

lemma replacer_Undefined: "replacer Undefined = Inr (Str ''<undefined>'')"
  by (simp add: replacer_def)

lemma replacer_Null: "replacer Null = Inr Null"
  by (simp add: replacer_def typeOf_simps jsonTypes_def exn_bind_Inr)

lemma stringify_Str: "JSON_stringify (Str s) n = Inr (Some (QuoteJSONString s))"
  by (simp add: JSON_stringify_def SerializeJSONProperty.simps replacer_Str)

lemma set_replace_all: "set (replace_all pat rep s) \<subseteq> set s \<union> set rep"
proof (induction pat rep s rule: replace_all.induct)
  case (1 pat rep)
  then show ?case by simp
next
  case (2 pat rep c cs)
  show ?case
  proof (cases "pat \<noteq> [] \<and> take (length pat) (c # cs) = pat")
    case True
    with 2 have "set (replace_all pat rep (drop (length pat) (c # cs)))
        \<subseteq> set (drop (length pat) (c # cs)) \<union> set rep"
      by simp
    moreover have "set (drop (length pat) (c # cs)) \<subseteq> set (c # cs)"
      by (rule set_drop_subset)
    ultimately show ?thesis using True by auto
  next
    case False
    with 2 show ?thesis by auto
  qed
qed

lemma replace_all_char: "replace_all [a] [b] s = map (\<lambda>c. if c = a then b else c) s"
  by (induction s) auto

lemma hex_char_not_newline: "d < 16 \<Longrightarrow> hex_char d \<noteq> newline"
proof
  assume d: "d < 16" and eq: "hex_char d = newline"
  then have "(of_char (hex_char d) :: nat) = of_char newline" by simp
  with d show False by (simp add: hex_char_def split: if_splits)
qed

lemma quote_char_no_newline: "newline \<notin> set (quote_char c)"
proof -
  have a: "newline \<noteq> hex_char ((of_char c :: nat) mod 16)"
    using hex_char_not_newline [of "(of_char c :: nat) mod 16"] by auto
  have b: "(of_char c :: nat) < 32 \<Longrightarrow> newline \<noteq> hex_char ((of_char c :: nat) div 16)"
  proof -
    assume "(of_char c :: nat) < 32"
    then have "(of_char c :: nat) div 16 < 16" by arith
    then show ?thesis using hex_char_not_newline [of "(of_char c :: nat) div 16"] by auto
  qed
  show ?thesis
    using a b by (auto simp: quote_char_def Let_def)
qed

lemma quote_no_newline: "newline \<notin> set (QuoteJSONString s)"
  by (simp add: QuoteJSONString_def quote_char_no_newline)

text \<open>
  The token of a text: its JSON encoding never holds a line break, so the token is
  the single-line one; the last replacement maps each remaining double quote to a
  single quote, code unit by code unit.
\<close>

lemma format_Str:
  "format (Str s) isIndented =
     Str ([backtick] @ map (\<lambda>c. if c = dquote then squote else c)
            (replace_all [backslash, dquote] [squote]
              (replace_all (dquote # ''<undefined>'' @ [dquote]) ''undefined'' (QuoteJSONString s)))
          @ [backtick])"
proof -
  let ?r2 = "replace_all [backslash, dquote] [squote]
              (replace_all (dquote # ''<undefined>'' @ [dquote]) ''undefined'' (QuoteJSONString s))"
  have "set ?r2 \<subseteq> set (QuoteJSONString s) \<union> set ''undefined'' \<union> set [squote]"
    using set_replace_all [of "[backslash, dquote]" "[squote]"]
      set_replace_all [of "dquote # ''<undefined>'' @ [dquote]" "''undefined''" "QuoteJSONString s"]
    by blast
  then have "newline \<notin> set ?r2"
    using quote_no_newline [of s] by auto
  then have "newline \<notin> set (replace_all [dquote] [squote] ?r2)"
    by (auto simp: replace_all_char)
  then show ?thesis
    by (simp add: format_def format_try_def stringify_Str replace_all_char Let_def)
qed

text \<open>
  C1 (as amended). \<open>format(undefined)\<close> is the text \<open>undefined\<close>, without quotes, between
  the pair of backticks that wraps every single-line token; it is not block-delimited,
  whether or not indentation is asked for.
\<close>

theorem format_undefined:
  "format Undefined isIndented = Str ([backtick] @ ''undefined'' @ [backtick])"
  by (simp add: format_def format_try_def JSON_stringify_def SerializeJSONProperty.simps
      replacer_Undefined QuoteJSONString_def quote_char_def)

text \<open>
  C1 as stated fails: \<open>format(undefined)\<close> is not the bare text \<open>undefined\<close>.
\<close>

theorem format_undefined_counterexample:
  "format Undefined False \<noteq> Str ''undefined''"
  by (simp add: format_def format_try_def JSON_stringify_def SerializeJSONProperty.simps
      replacer_Undefined QuoteJSONString_def quote_char_def)

text \<open>
  C6. When the encoding of a value throws, \<open>format\<close> returns the value as it was given;
  \<open>format\<close> itself has no error result.
\<close>

theorem format_fails_soft:
  "JSON_stringify v (if isIndented then 2 else 0) = Inl e \<Longrightarrow> format v isIndented = v"
  by (simp add: format_def format_try_def)

theorem format_fails_soft_witness:
  "JSON_stringify (Arr [Cyclic]) (if False then 2 else 0) = Inl TypeError
   \<and> format (Arr [Cyclic]) False = Arr [Cyclic]"
proof -
  have h: "JSON_stringify (Arr [Cyclic]) (if False then 2 else 0) = Inl TypeError"
    by code_simp
  from format_fails_soft [OF h] h show ?thesis by blast
qed

text \<open>
  C8. The token of a text that holds a double quote holds no double quote: in the
  encoding of the text each backslash-quote pair becomes a single quote, and then each
  double quote left becomes a single quote.
\<close>

theorem format_text_no_double_quote:
  "dquote \<in> set s \<Longrightarrow>
   (\<exists>t. format (Str s) isIndented = Str t \<and> dquote \<notin> set t)
   \<and> format (Str s) isIndented =
       Str ([backtick] @ map (\<lambda>c. if c = dquote then squote else c)
              (replace_all [backslash, dquote] [squote]
                (replace_all (dquote # ''<undefined>'' @ [dquote]) ''undefined''
                  (QuoteJSONString s)))
            @ [backtick])"
  by (auto simp: format_Str)

theorem format_text_no_double_quote_witness:
  "dquote \<in> set [CHR ''a'', dquote, CHR ''b'']
   \<and> format (Str [CHR ''a'', dquote, CHR ''b'']) False
       = Str [backtick, squote, CHR ''a'', squote, CHR ''b'', squote, backtick]
   \<and> (\<exists>t. format (Str [CHR ''a'', dquote, CHR ''b'']) False = Str t \<and> dquote \<notin> set t)"
proof -
  have h: "dquote \<in> set [CHR ''a'', dquote, CHR ''b'']" by simp
  have v: "format (Str [CHR ''a'', dquote, CHR ''b'']) False
       = Str [backtick, squote, CHR ''a'', squote, CHR ''b'', squote, backtick]"
    by code_simp
  from format_text_no_double_quote [OF h, of False] h v show ?thesis by blast
qed

section \<open>Properties of the assertion set\<close>

lemma pushResult_eq:
  "pushResult msg res exp act err self =
     self\<lparr>testContext := testContext self @ [\<lparr>result = res, expected = exp, actual = act,
        message = report_message_spec (if msg = Some [] then None else msg) res exp err\<rparr>]\<rparr>"
  by (cases msg) (simp_all add: pushResult_def report_message_spec_def msg_truthy_def msg_text_def)

lemma reported_push:
  "reported self (Inr (pushResult msg res exp act err self)) =
     Some \<lparr>result = res, expected = exp, actual = act,
        message = report_message_spec (if msg = Some [] then None else msg) res exp err\<rparr>"
  by (simp add: reported_def pushResult_eq)

lemma passes_push: "passes self (Inr (pushResult msg res exp act err self)) = res"
  by (simp add: passes_def reported_push)

lemma fails_push: "fails self (Inr (pushResult msg res exp act err self)) = (\<not> res)"
  by (simp add: fails_def reported_push)

lemma getCall_none: "calls s = [] \<Longrightarrow> getCall s (- 1) = None"
  by (simp add: getCall_def callCount_def)

lemma raises_Inr: "\<not> raises (Inr x)"
  by (simp add: raises_def)

text \<open>
  C4 (as amended). The result handed to the test context carries the boolean result,
  the expected text and the actual text as given. Its message is composed as the
  specification says, with an empty message treated as an absent one: on success the
  caller's message when it is present and not empty, else the expected text; on failure
  the caller's message and a line break when it is present and not empty, then the
  explanation.
\<close>

theorem pushResult_message:
  "testContext (pushResult msg res exp act err self) =
     testContext self @ [\<lparr>result = res, expected = exp, actual = act,
        message = report_message_spec (if msg = Some [] then None else msg) res exp err\<rparr>]
   \<and> spy (pushResult msg res exp act err self) = spy self"
  by (simp add: pushResult_eq)

text \<open>
  C4 as stated fails for a message that is present and empty: on success the
  message handed over is the expected text, not the caller's empty message.
\<close>

theorem pushResult_message_counterexample:
  "message (last (testContext
      (pushResult (Some []) True ''expected'' ''actual'' ''explanation'' (fresh never_called))))
   \<noteq> report_message_spec (Some []) True ''expected'' ''explanation''"
  by (simp add: pushResult_def report_message_spec_def msg_truthy_def msg_text_def)

text \<open>
  C5. \<open>calledTimes(n)\<close> pushes a success exactly when the call count is \<open>n\<close>, and a
  failure otherwise; \<open>calledOnce\<close>, \<open>calledTwice\<close> and \<open>notCalled\<close> are \<open>calledTimes\<close>
  with 1, 2 and 0 and the same message.
\<close>

theorem calledTimes_iff:
  "passes self (calledTimes n msg self) = (callCount (spy self) = n)
   \<and> fails self (calledTimes n msg self) = (callCount (spy self) \<noteq> n)
   \<and> calledOnce msg self = calledTimes 1 msg self
   \<and> calledTwice msg self = calledTimes 2 msg self
   \<and> notCalled msg self = calledTimes 0 msg self"
  by (simp add: calledTimes_def calledOnce_def calledTwice_def notCalled_def Let_def
      passes_push fails_push)

theorem calledTimes_iff_witness:
  "passes (fresh called_ab) (calledOnce None (fresh called_ab))
   \<and> fails (fresh called_ab) (notCalled None (fresh called_ab))
   \<and> callCount (spy (fresh called_ab)) = 1"
proof -
  have c: "callCount (spy (fresh called_ab)) = 1"
    by (simp add: callCount_def fresh_def called_ab_def)
  from calledTimes_iff [of "fresh called_ab" 1 None] calledTimes_iff [of "fresh called_ab" 0 None] c
  show ?thesis by simp
qed

text \<open>
  On a spy with no recorded call, whenever the text of the arguments can be built,
  \<open>notCalledWith\<close> and \<open>notCalledWithExactly\<close> push a success, and \<open>lastNotCalledWith\<close>
  and \<open>lastNotCalledWithExactly\<close> push a failure.
\<close>

lemma never_called_negative_checks_formatted:
  "calls (spy self) = [] \<Longrightarrow> fmt (Arr args) = Inr t \<Longrightarrow>
   passes self (notCalledWith args msg self)
   \<and> passes self (notCalledWithExactly args msg self)
   \<and> fails self (lastNotCalledWith args msg self)
   \<and> fails self (lastNotCalledWithExactly args msg self)"
  by (simp add: notCalledWith_def notCalledWithExactly_def lastNotCalledWith_def
      lastNotCalledWithExactly_def Let_def passes_push fails_push exn_bind_Inr
      getCall_none spy_calledWith_def spy_calledWithExactly_def)

text \<open>
  C2, at the arguments \<open>[a]\<close> with \<open>a = [Symbol('s')]; a.push(a)\<close>, on a spy never
  called. \<open>format\<close> gives the arguments back, their conversion to text in the template
  throws, and \<open>notCalledWith\<close> and \<open>notCalledWithExactly\<close> raise a \<open>TypeError\<close> with
  nothing pushed: they do not pass.
\<close>

theorem notCalledWith_raises_on_symbol_in_cycle:
  "calls (spy (fresh never_called)) = []
   \<and> format (Arr [symbol_in_cycle]) False = Arr [symbol_in_cycle]
   \<and> js_ToString (Arr [symbol_in_cycle]) = Inl TypeError
   \<and> map_sum id testContext (notCalledWith [symbol_in_cycle] None (fresh never_called))
       = Inl TypeError
   \<and> map_sum id testContext (notCalledWithExactly [symbol_in_cycle] None (fresh never_called))
       = Inl TypeError
   \<and> \<not> passes (fresh never_called) (notCalledWith [symbol_in_cycle] None (fresh never_called))
   \<and> \<not> passes (fresh never_called)
         (notCalledWithExactly [symbol_in_cycle] None (fresh never_called))"
  by code_simp

text \<open>
  On a spy with no recorded call, whenever the texts of the arguments and of the value
  can be built, each of \<open>lastCalledWith\<close>, \<open>lastCalledWithExactly\<close>, \<open>lastReturnedWith\<close>
  and \<open>lastDidNotReturnWith\<close> returns without an error and pushes one result, a failure.
\<close>

lemma never_called_last_checks_formatted:
  "calls (spy self) = [] \<Longrightarrow> fmt (Arr args) = Inr t \<Longrightarrow> fmt v = Inr tv \<Longrightarrow>
   fails self (lastCalledWith args msg self)
   \<and> fails self (lastCalledWithExactly args msg self)
   \<and> fails self (lastReturnedWith v msg self)
   \<and> fails self (lastDidNotReturnWith v msg self)
   \<and> \<not> raises (lastCalledWith args msg self)
   \<and> \<not> raises (lastCalledWithExactly args msg self)
   \<and> \<not> raises (lastReturnedWith v msg self)
   \<and> \<not> raises (lastDidNotReturnWith v msg self)"
  by (simp add: lastCalledWith_def lastCalledWithExactly_def lastReturnedWith_def
      lastDidNotReturnWith_def Let_def fails_push exn_bind_Inr getCall_none raises_Inr)

text \<open>
  C9, at the value \<open>a\<close> with \<open>a = [Symbol('s')]; a.push(a)\<close> and at the arguments
  \<open>[a]\<close>, on a spy never called. Each last-call check raises a \<open>TypeError\<close> while it
  builds its expected text, with nothing pushed: it reports no failure.
\<close>

theorem last_checks_raise_on_symbol_in_cycle:
  "calls (spy (fresh never_called)) = []
   \<and> map_sum id testContext (lastReturnedWith symbol_in_cycle None (fresh never_called))
       = Inl TypeError
   \<and> map_sum id testContext (lastDidNotReturnWith symbol_in_cycle None (fresh never_called))
       = Inl TypeError
   \<and> map_sum id testContext (lastCalledWith [symbol_in_cycle] None (fresh never_called))
       = Inl TypeError
   \<and> map_sum id testContext (lastCalledWithExactly [symbol_in_cycle] None (fresh never_called))
       = Inl TypeError
   \<and> \<not> fails (fresh never_called) (lastReturnedWith symbol_in_cycle None (fresh never_called))
   \<and> \<not> fails (fresh never_called) (lastCalledWith [symbol_in_cycle] None (fresh never_called))"
  by code_simp

lemma format_not_nullish: "format v i \<noteq> Undefined \<and> format v i \<noteq> Null"
proof (cases "format_try v i")
  case (Inr t)
  then show ?thesis by (simp add: format_def)
next
  case (Inl e)
  then have fv: "format v i = v" by (simp add: format_def)
  have "format Undefined i \<noteq> Undefined"
    by (simp add: format_def format_try_def JSON_stringify_def SerializeJSONProperty.simps
      replacer_Undefined Let_def)
  moreover have "format Null i \<noteq> Null"
    by (simp add: format_def format_try_def JSON_stringify_def SerializeJSONProperty.simps
      replacer_Null Let_def)
  ultimately show ?thesis using fv by metis
qed

lemma sequence_map_Inr: "sequence (map Inr ts) = Inr ts"
  by (induction ts) simp_all

lemma join_formatItems:
  assumes "map fmt xs = map Inr ts"
  shows "join sep (formatItems xs False) = Inr (intercalate sep ts)"
proof -
  have "map (\<lambda>x. if x = Undefined \<or> x = Null then Inr [] else js_ToString x)
          (formatItems xs False) = map fmt xs"
    by (simp add: formatItems_def fmt_def format_not_nullish)
  with assms show ?thesis
    by (simp add: join_def sequence_map_Inr)
qed

text \<open>
  C3 (as amended). Where the texts can be built, so that the check reports a result:
  the actual text of \<open>calledWith\<close> and \<open>calledWithExactly\<close> lists the formatted
  arguments of every recorded call, one call per line, when the spy was called, and is
  the placeholder \<open>not called at all\<close> when it was not; the actual text of
  \<open>returnedWith\<close> on a spy that was called lists every formatted return value, one per
  line; the actual text of \<open>notCalledWith\<close>, \<open>notCalledWithExactly\<close> and
  \<open>didNotReturnWith\<close> restates the formatted expectation, whatever was recorded.
  \<open>argTexts\<close> and \<open>valueTexts\<close> are the texts of the formatted arguments and return
  values of the recorded calls, in order; \<open>t\<close> and \<open>tv\<close> are the texts of the formatted
  expectation.
\<close>

theorem actual_text_of_checks:
  "(map fmt (spy_args (spy self)) = map Inr argTexts \<and> fmt (Arr args) = Inr t \<longrightarrow>
      map_option actual (reported self (calledWith args msg self))
        = Some (spy_name (spy self) @ '' was ''
            @ (if calls (spy self) = [] then ''not called at all''
               else ''called with: '' @ intercalate [newline] argTexts))
      \<and> map_option actual (reported self (calledWithExactly args msg self))
        = Some (spy_name (spy self) @ '' was ''
            @ (if calls (spy self) = [] then ''not called at all''
               else ''called with: '' @ intercalate [newline] argTexts)))
   \<and> (calls (spy self) \<noteq> [] \<and> map fmt (returnValues (spy self)) = map Inr valueTexts
       \<and> fmt v = Inr tv \<longrightarrow>
      map_option actual (reported self (returnedWith v msg self))
        = Some (spy_name (spy self) @ '' returned '' @ intercalate [newline] valueTexts))
   \<and> (fmt (Arr args) = Inr t \<longrightarrow>
      map_option actual (reported self (notCalledWith args msg self))
        = Some (spy_name (spy self) @ '' was called with: '' @ t)
      \<and> map_option actual (reported self (notCalledWithExactly args msg self))
        = Some (spy_name (spy self) @ '' was called with: '' @ t))
   \<and> (fmt v = Inr tv \<longrightarrow>
      map_option actual (reported self (didNotReturnWith v msg self))
        = Some (spy_name (spy self) @ '' returned '' @ tv))"
  by (simp add: calledWith_def calledWithExactly_def returnedWith_def notCalledWith_def
      notCalledWithExactly_def didNotReturnWith_def Let_def reported_push join_formatItems
      callCount_def exn_bind_Inr)

theorem actual_text_of_checks_witness:
  "calls (spy (fresh called_twice)) \<noteq> []
   \<and> map fmt (spy_args (spy (fresh called_twice)))
       = map Inr [[backtick] @ ''[1]'' @ [backtick], [backtick] @ ''[2]'' @ [backtick]]
   \<and> map fmt (returnValues (spy (fresh called_twice)))
       = map Inr [[backtick] @ ''10'' @ [backtick], [backtick] @ ''20'' @ [backtick]]
   \<and> fmt (Arr [Num 3]) = Inr ([backtick] @ ''[3]'' @ [backtick])
   \<and> fmt (Num 3) = Inr ([backtick] @ ''3'' @ [backtick])
   \<and> map_option actual
        (reported (fresh called_twice) (calledWith [Num 3] None (fresh called_twice)))
      = Some (''spy was called with: '' @ [backtick] @ ''[1]'' @ [backtick, newline, backtick]
               @ ''[2]'' @ [backtick])
   \<and> map_option actual
        (reported (fresh called_twice) (returnedWith (Num 3) None (fresh called_twice)))
      = Some (''spy returned '' @ [backtick] @ ''10'' @ [backtick, newline, backtick]
               @ ''20'' @ [backtick])
   \<and> map_option actual
        (reported (fresh called_twice) (notCalledWith [Num 3] None (fresh called_twice)))
      = Some (''spy was called with: '' @ [backtick] @ ''[3]'' @ [backtick])
   \<and> map_option actual
        (reported (fresh called_twice) (didNotReturnWith (Num 3) None (fresh called_twice)))
      = Some (''spy returned '' @ [backtick] @ ''3'' @ [backtick])"
proof -
  have h0: "calls (spy (fresh called_twice)) \<noteq> []"
    by (simp add: fresh_def called_twice_def)
  have h1: "map fmt (spy_args (spy (fresh called_twice)))
       = map Inr [[backtick] @ ''[1]'' @ [backtick], [backtick] @ ''[2]'' @ [backtick]]"
    by code_simp
  have h2: "map fmt (returnValues (spy (fresh called_twice)))
       = map Inr [[backtick] @ ''10'' @ [backtick], [backtick] @ ''20'' @ [backtick]]"
    by code_simp
  have h3: "fmt (Arr [Num 3]) = Inr ([backtick] @ ''[3]'' @ [backtick])"
    by code_simp
  have h4: "fmt (Num 3) = Inr ([backtick] @ ''3'' @ [backtick])"
    by code_simp
  have n: "spy_name (spy (fresh called_twice)) = ''spy''"
    by (simp add: fresh_def called_twice_def)
  note a = actual_text_of_checks [where self = "fresh called_twice" and args = "[Num 3]"
      and v = "Num 3" and msg = None
      and argTexts = "[[backtick] @ ''[1]'' @ [backtick], [backtick] @ ''[2]'' @ [backtick]]"
      and valueTexts = "[[backtick] @ ''10'' @ [backtick], [backtick] @ ''20'' @ [backtick]]"
      and t = "[backtick] @ ''[3]'' @ [backtick]" and tv = "[backtick] @ ''3'' @ [backtick]"]
  from a h0 h1 h3 have c1: "map_option actual
        (reported (fresh called_twice) (calledWith [Num 3] None (fresh called_twice)))
      = Some (''spy was called with: '' @ [backtick] @ ''[1]'' @ [backtick, newline, backtick]
               @ ''[2]'' @ [backtick])"
    by (simp add: n)
  from a h0 h2 h4 have c2: "map_option actual
        (reported (fresh called_twice) (returnedWith (Num 3) None (fresh called_twice)))
      = Some (''spy returned '' @ [backtick] @ ''10'' @ [backtick, newline, backtick]
               @ ''20'' @ [backtick])"
    by (simp add: n)
  from a h3 have c3: "map_option actual
        (reported (fresh called_twice) (notCalledWith [Num 3] None (fresh called_twice)))
      = Some (''spy was called with: '' @ [backtick] @ ''[3]'' @ [backtick])"
    by (simp add: n)
  from a h4 have c4: "map_option actual
        (reported (fresh called_twice) (didNotReturnWith (Num 3) None (fresh called_twice)))
      = Some (''spy returned '' @ [backtick] @ ''3'' @ [backtick])"
    by (simp add: n)
  from h0 h1 h2 h3 h4 c1 c2 c3 c4 show ?thesis by (intro conjI)
qed

text \<open>
  C3 as stated fails for \<open>notCalledWith\<close>. On a spy never called its actual text
  is not the placeholder, and on a spy called as \<open>f(1)\<close> and \<open>f(2)\<close> its actual text for
  the expectation \<open>[1]\<close> does not hold the list of the recorded calls.
\<close>

theorem actual_text_of_checks_counterexample:
  "map_option actual
       (reported (fresh never_called) (notCalledWith [Num 1] None (fresh never_called)))
     = Some (''spy was called with: '' @ [backtick] @ ''[1]'' @ [backtick])
   \<and> \<not> js_includes (''spy was called with: '' @ [backtick] @ ''[1]'' @ [backtick])
         ''not called at all''
   \<and> map_option actual
       (reported (fresh called_twice) (notCalledWith [Num 1] None (fresh called_twice)))
     = Some (''spy was called with: '' @ [backtick] @ ''[1]'' @ [backtick])
   \<and> map fmt (spy_args called_twice)
     = map Inr [[backtick] @ ''[1]'' @ [backtick], [backtick] @ ''[2]'' @ [backtick]]
   \<and> \<not> js_includes (''spy was called with: '' @ [backtick] @ ''[1]'' @ [backtick])
         (intercalate [newline]
            [[backtick] @ ''[1]'' @ [backtick], [backtick] @ ''[2]'' @ [backtick]])"
  by code_simp

lemma push_ex:
  "\<exists>q. \<forall>tc. pushResult m r e a x (self\<lparr>testContext := tc\<rparr>) = self\<lparr>testContext := tc @ [q]\<rparr>"
proof -
  have "\<forall>tc. pushResult m r e a x (self\<lparr>testContext := tc\<rparr>)
      = self\<lparr>testContext := tc @ [\<lparr>result = r, expected = e, actual = a,
        message = report_message_spec (if m = Some [] then None else m) r e x\<rparr>]\<rparr>"
    by (simp add: pushResult_eq)
  then show ?thesis by (rule exI)
qed

lemmas check_defs =
  called_def calledTimes_def calledOnce_def calledTwice_def notCalled_def calledWith_def
  calledWithExactly_def notCalledWith_def notCalledWithExactly_def returnedWith_def
  didNotReturnWith_def threw_def threwWith_def lastCalledWith_def lastCalledWithExactly_def
  lastReturnedWith_def lastNotCalledWith_def lastNotCalledWithExactly_def
  lastDidNotReturnWith_def

text \<open>
  A check that does not raise returns the instance it was called on with one result
  added; the result depends on the spy and the arguments, not on what was pushed
  before.
\<close>

lemma run_check_pushes:
  assumes "\<not> raises (run_check c self)"
  shows "\<exists>q. \<forall>tc. run_check c (self\<lparr>testContext := tc\<rparr>) = Inr (self\<lparr>testContext := tc @ [q]\<rparr>)"
proof (cases "getCall (spy self) (- 1)")
  case None
  with assms show ?thesis
    by (cases c)
      (auto simp add: check_defs Let_def exn_bind_def member_def push_ex raises_def
        split: sum.splits if_splits)
next
  case (Some lc)
  with assms show ?thesis
    by (cases c)
      (auto simp add: check_defs Let_def exn_bind_def member_def push_ex raises_def
        split: sum.splits if_splits)
qed

lemma run_chain_pushes:
  assumes "\<forall>c\<in>set cs. \<not> raises (run_check c self)"
  shows "\<exists>rs. length rs = length cs
     \<and> (\<forall>tc. run_chain cs (self\<lparr>testContext := tc\<rparr>) = Inr (self\<lparr>testContext := tc @ rs\<rparr>))
     \<and> (\<forall>i<length cs. \<forall>tc. run_check (cs ! i) (self\<lparr>testContext := tc\<rparr>)
            = Inr (self\<lparr>testContext := tc @ [rs ! i]\<rparr>))"
  using assms
proof (induction cs)
  case Nil
  show ?case by simp
next
  case (Cons c cs)
  from Cons obtain rs where rs: "length rs = length cs"
    "\<And>tc. run_chain cs (self\<lparr>testContext := tc\<rparr>) = Inr (self\<lparr>testContext := tc @ rs\<rparr>)"
    "\<And>i tc. i < length cs \<Longrightarrow> run_check (cs ! i) (self\<lparr>testContext := tc\<rparr>)
            = Inr (self\<lparr>testContext := tc @ [rs ! i]\<rparr>)"
    by auto
  from Cons.prems have "\<not> raises (run_check c self)" by simp
  from run_check_pushes [OF this] obtain q where
    q: "\<And>tc. run_check c (self\<lparr>testContext := tc\<rparr>) = Inr (self\<lparr>testContext := tc @ [q]\<rparr>)"
    by blast
  have "length (q # rs) = length (c # cs)" using rs(1) by simp
  moreover have "\<forall>tc. run_chain (c # cs) (self\<lparr>testContext := tc\<rparr>)
      = Inr (self\<lparr>testContext := tc @ (q # rs)\<rparr>)"
    by (simp add: q rs(2) exn_bind_Inr)
  moreover have "\<forall>i<length (c # cs). \<forall>tc. run_check ((c # cs) ! i) (self\<lparr>testContext := tc\<rparr>)
            = Inr (self\<lparr>testContext := tc @ [(q # rs) ! i]\<rparr>)"
  proof (intro allI impI)
    fix i tc assume "i < length (c # cs)"
    then show "run_check ((c # cs) ! i) (self\<lparr>testContext := tc\<rparr>)
            = Inr (self\<lparr>testContext := tc @ [(q # rs) ! i]\<rparr>)"
      by (cases i) (simp_all add: q rs(3))
  qed
  ultimately show ?case by blast
qed

text \<open>
  A chain of checks none of which raises returns the instance it started on: the same
  spy, and the same test context with one result added per check, in the order of the
  calls; the result at position \<open>i\<close> is the one check \<open>i\<close> pushes when called on the
  instance by itself.
\<close>

lemma chain_reports_in_order_unless_raised:
  assumes "\<forall>c\<in>set cs. \<not> raises (run_check c self)"
  shows "\<exists>rs. run_chain cs self = Inr (self\<lparr>testContext := testContext self @ rs\<rparr>)
     \<and> length rs = length cs
     \<and> (\<forall>i<length cs. run_check (cs ! i) self
            = Inr (self\<lparr>testContext := testContext self @ [rs ! i]\<rparr>))"
proof -
  from run_chain_pushes [OF assms] obtain rs where rs: "length rs = length cs"
    "\<And>tc. run_chain cs (self\<lparr>testContext := tc\<rparr>) = Inr (self\<lparr>testContext := tc @ rs\<rparr>)"
    "\<And>i tc. i < length cs \<Longrightarrow> run_check (cs ! i) (self\<lparr>testContext := tc\<rparr>)
            = Inr (self\<lparr>testContext := tc @ [rs ! i]\<rparr>)"
    by blast
  have self: "self\<lparr>testContext := testContext self\<rparr> = self" by simp
  from rs(2) [of "testContext self"] rs(3) [of _ "testContext self"] rs(1) show ?thesis
    unfolding self by blast
qed

text \<open>
  C10, at the chain \<open>notCalled().returnedWith(a).called()\<close> with
  \<open>a = [Symbol('s')]; a.push(a)\<close>, on a spy never called. \<open>notCalled\<close> pushes its
  result, a success; \<open>returnedWith\<close> raises a \<open>TypeError\<close> while it builds its expected
  text, pushes nothing and returns no instance; the chain raises, and \<open>called\<close> is not
  reached.
\<close>

theorem chain_raises_on_symbol_in_cycle:
  "map_sum id testContext
       (run_chain [NotCalled None, ReturnedWith symbol_in_cycle None, Called None]
          (fresh never_called)) = Inl TypeError
   \<and> map_sum id (map result \<circ> testContext) (run_check (NotCalled None) (fresh never_called))
       = Inr [True]
   \<and> map_sum id testContext
       (run_check (ReturnedWith symbol_in_cycle None) (fresh never_called)) = Inl TypeError"
  by code_simp

section \<open>Properties of the factory\<close>








end
